theory Spec2Isabelle
  imports Complex_Main "HOL-Library.Word" "HOL-Library.Sublist" "HOL-Library.AList"
begin

section \<open>dcp: a file and directory copier (src/dcp.py)\<close>

text \<open>
  A shallow embedding of \<^verbatim>\<open>dcp.py\<close>. Mutation of the file system and of the
  \<^verbatim>\<open>Stats\<close> object is explicit state passing; every \<^verbatim>\<open>raise\<close> is the \<open>Inl\<close> branch
  of a sum, returned together with the state reached when the exception left the
  function (Python keeps the mutations made before a raise).
\<close>

subsection \<open>Bytes, paths and the file system\<close>

type_synonym byte = "8 word"
type_synonym bytes = "byte list"

text \<open>
  A path is the list of its components below the root. Typer resolves both command
  line arguments (\<^verbatim>\<open>resolve_path=True\<close>) and every other path of the program is
  derived from them with \<^verbatim>\<open>/\<close>, \<^verbatim>\<open>rglob\<close> and \<^verbatim>\<open>parent\<close>, so every path is absolute
  and \<^verbatim>\<open>Path.absolute()\<close> returns the path itself.
\<close>

type_synonym path = "string list"

definition path_str :: "path \<Rightarrow> string" where
  "path_str p = (if p = [] then ''/'' else concat (map (\<lambda>c. ''/'' @ c) p))"

definition absolute :: "path \<Rightarrow> path" where
  "absolute p = p"

definition name :: "path \<Rightarrow> string" where
  "name p = (if p = [] then [] else last p)"

definition parent :: "path \<Rightarrow> path" where
  "parent p = butlast p"

definition joinpath :: "path \<Rightarrow> path \<Rightarrow> path" where
  "joinpath p q = p @ q"

datatype error =
    ValueError string
  | ZeroDivisionError
  | FileExistsError string
  | NotADirectoryError string
  | OverflowError string
  | MemoryError
  | Abort

definition relative_to :: "path \<Rightarrow> path \<Rightarrow> error + path" where
  "relative_to p base =
     (if prefix base p then Inr (drop (length base) p)
      else Inl (ValueError (path_str p @ '' is not in the subpath of '' @ path_str base)))"

datatype node = File bytes | Dir

text \<open>
  The file system is an association list from paths to nodes; its order is the order in
  which \<^verbatim>\<open>rglob\<close> enumerates entries.
\<close>

type_synonym filesystem = "(path \<times> node) list"

definition exists :: "filesystem \<Rightarrow> path \<Rightarrow> bool" where
  "exists fs p = (case map_of fs p of None \<Rightarrow> False | Some _ \<Rightarrow> True)"

definition is_file :: "filesystem \<Rightarrow> path \<Rightarrow> bool" where
  "is_file fs p = (case map_of fs p of Some (File _) \<Rightarrow> True | _ \<Rightarrow> False)"

definition is_dir :: "filesystem \<Rightarrow> path \<Rightarrow> bool" where
  "is_dir fs p = (case map_of fs p of Some Dir \<Rightarrow> True | _ \<Rightarrow> False)"

definition content :: "filesystem \<Rightarrow> path \<Rightarrow> bytes" where
  \<comment> \<open>what \<^verbatim>\<open>open(p, 'rb')\<close> reads; only used on regular files\<close>
  "content fs p = (case map_of fs p of Some (File bs) \<Rightarrow> bs | _ \<Rightarrow> [])"

definition st_size :: "filesystem \<Rightarrow> path \<Rightarrow> int" where
  "st_size fs p = int (length (content fs p))"

definition rglob :: "filesystem \<Rightarrow> path \<Rightarrow> path list" where
  \<comment> \<open>\<^verbatim>\<open>list(source.rglob('*'))\<close>: every entry strictly below \<open>source\<close>\<close>
  "rglob fs source = filter (strict_prefix source) (map fst fs)"

definition mkdir_parents :: "filesystem \<Rightarrow> path \<Rightarrow> error + filesystem" where
  \<comment> \<open>\<^verbatim>\<open>p.mkdir(parents=True, exist_ok=True)\<close>: an existing directory is accepted, a
      regular file at \<open>p\<close> or above it is an \<^verbatim>\<open>OSError\<close>, every missing ancestor is created\<close>
  "mkdir_parents fs p =
     (if list_ex (is_file fs) (butlast (prefixes p)) then Inl (NotADirectoryError (path_str p))
      else if is_file fs p then Inl (FileExistsError (path_str p))
      else Inr (fs @ map (\<lambda>q. (q, Dir)) (filter (\<lambda>q. \<not> exists fs q) (prefixes p))))"

definition open_wb :: "filesystem \<Rightarrow> path \<Rightarrow> filesystem" where
  \<comment> \<open>\<^verbatim>\<open>open(p, 'wb')\<close> creates the file or truncates it\<close>
  "open_wb fs p = AList.update p (File []) fs"

definition write_file :: "filesystem \<Rightarrow> path \<Rightarrow> bytes \<Rightarrow> filesystem" where
  \<comment> \<open>the file once \<open>bs\<close> has been written through the handle and the handle is closed\<close>
  "write_file fs p bs = AList.update p (File bs) fs"

subsection \<open>The collaborators of the program\<close>

text \<open>
  \<^verbatim>\<open>hashlib.sha256\<close>, \<^verbatim>\<open>typer.confirm\<close>, \<^verbatim>\<open>time.perf_counter\<close> and the \<^verbatim>\<open>humanize\<close>
  formatters are libraries outside the repository; they are parameters of the model.
  A hash object is the bytes fed to it so far (\<^verbatim>\<open>update\<close> appends, as hashlib
  documents), and \<open>sha256\<close> maps them to the digest. \<open>perf_counter E i\<close> is the
  \<open>i\<close>-th reading of the clock. \<open>alloc_error E n\<close> is the error, if any, with which the
  interpreter fails to provide the \<open>n\<close>-byte buffer of a read: \<^verbatim>\<open>MemoryError\<close> when the
  machine has no such memory, \<^verbatim>\<open>OverflowError\<close> when \<open>n\<close> is beyond the largest bytes
  object. It depends on the machine, so it is a parameter too.
\<close>

record env =
  sha256 :: "bytes \<Rightarrow> bytes"
  confirm :: "string \<Rightarrow> error + bool"
  perf_counter :: "nat \<Rightarrow> real"
  naturalsize :: "real \<Rightarrow> string"
  intcomma :: "int \<Rightarrow> string"
  precisedelta :: "real \<Rightarrow> string"
  alloc_error :: "int \<Rightarrow> error option"

subsection \<open>Streams\<close>

definition index_error :: error where
  "index_error =
     OverflowError (''cannot fit '' @ [CHR 0x27] @ ''int'' @ [CHR 0x27] @ '' into an index-sized integer'')"

definition read :: "env \<Rightarrow> bytes \<Rightarrow> int \<Rightarrow> error + (bytes \<times> bytes)" where
  \<comment> \<open>\<^verbatim>\<open>BufferedReader.read(n)\<close> on the remaining bytes: the chunk and what is left.
      The size must fit a signed 64-bit index; \<open>-1\<close> reads to the end and a smaller size
      is refused; a read of \<open>n > 0\<close> bytes first takes a buffer of \<open>n\<close> bytes, a read to
      the end one of the size of what is left.\<close>
  "read E stream n =
     (if n < - (2 ^ 63) \<or> 2 ^ 63 \<le> n then Inl index_error
      else if n < - 1 then Inl (ValueError ''read length must be non-negative or -1'')
      else
        (let wanted = (if n = - 1 then int (length stream) else n) in
         if wanted = 0 then Inr ([], stream)
         else
           (case alloc_error E wanted of
              Some e \<Rightarrow> Inl e
            | None \<Rightarrow>
                if n = - 1 then Inr (stream, [])
                else Inr (take (nat n) stream, drop (nat n) stream))))"

function process_stream ::
  "env \<Rightarrow> bytes \<Rightarrow> ('a \<Rightarrow> bytes \<Rightarrow> 'a) \<Rightarrow> int \<Rightarrow> 'a \<Rightarrow> error + 'a" where
  "process_stream E stream callback buffer acc =
     (case read E stream buffer of
        Inl e \<Rightarrow> Inl e
      | Inr (buf, rest) \<Rightarrow>
          if buf = [] then Inr acc
          else process_stream E rest callback buffer (callback acc buf))"
  by pat_completeness auto
termination
  by (relation "measure (\<lambda>(E, stream, callback, buffer, acc). length stream)")
     (auto simp: read_def Let_def split: if_splits option.splits)

declare process_stream.simps [simp del]

subsection \<open>Hash objects and file handles as callbacks\<close>

definition hash_update :: "bytes \<Rightarrow> bytes \<Rightarrow> bytes" where
  "hash_update h buf = h @ buf"

definition dst_write :: "bytes \<Rightarrow> bytes \<Rightarrow> bytes" where
  "dst_write written buf = written @ buf"

subsection \<open>Stats\<close>

record Stats =
  start_time :: "real option"
  end_time :: "real option"
  file_counter :: int
  size_counter :: int

definition Stats_init :: Stats where
  "Stats_init = \<lparr>start_time = None, end_time = None, file_counter = 0, size_counter = 0\<rparr>"

record state =
  fs :: filesystem
  stats :: Stats
  ticks :: nat
  stdout :: "string list"
  stderr :: "string list"

definition get_time :: "env \<Rightarrow> state \<Rightarrow> real \<times> state" where
  "get_time E w = (perf_counter E (ticks w), w\<lparr>ticks := Suc (ticks w)\<rparr>)"

definition Stats_enter :: "env \<Rightarrow> state \<Rightarrow> state" where
  "Stats_enter E w =
     (case get_time E w of (t, w') \<Rightarrow> w'\<lparr>stats := (stats w')\<lparr>start_time := Some t\<rparr>\<rparr>)"

definition Stats_exit :: "env \<Rightarrow> state \<Rightarrow> state" where
  "Stats_exit E w =
     (case get_time E w of (t, w') \<Rightarrow> w'\<lparr>stats := (stats w')\<lparr>end_time := Some t\<rparr>\<rparr>)"

definition not_recorded :: error where
  "not_recorded =
     ValueError ''Stats are not recorded yet. Yoy must use context manager before formatting stats.''"

definition truediv :: "real \<Rightarrow> real \<Rightarrow> error + real" where
  \<comment> \<open>Python's \<^verbatim>\<open>/\<close>: a zero divisor raises\<close>
  "truediv a b = (if b = 0 then Inl ZeroDivisionError else Inr (a / b))"

definition time :: "env \<Rightarrow> Stats \<Rightarrow> error + string" where
  "time E s =
     (case (start_time s, end_time s) of
        (Some t0, Some t1) \<Rightarrow> Inr (precisedelta E (t1 - t0))
      | _ \<Rightarrow> Inl not_recorded)"

definition size_fmt :: "env \<Rightarrow> Stats \<Rightarrow> string" where
  "size_fmt E s = naturalsize E (real_of_int (size_counter s))"

definition files :: "env \<Rightarrow> Stats \<Rightarrow> string" where
  "files E s = intcomma E (file_counter s)"

definition speed :: "env \<Rightarrow> Stats \<Rightarrow> error + string" where
  "speed E s =
     (case (start_time s, end_time s) of
        (Some t0, Some t1) \<Rightarrow>
          (case truediv (real_of_int (size_counter s)) (t1 - t0) of
             Inl e \<Rightarrow> Inl e
           | Inr v \<Rightarrow> Inr (naturalsize E v @ ''/s''))
      | _ \<Rightarrow> Inl not_recorded)"

subsection \<open>copy_file\<close>

definition digests_equal :: "env \<Rightarrow> int \<Rightarrow> bytes \<Rightarrow> bytes \<Rightarrow> error + bool" where
  \<comment> \<open>lines 145-150: both files are streamed into their own hash object, source first\<close>
  "digests_equal E buffer_size src dst =
     (case process_stream E src hash_update buffer_size [] of
        Inl e \<Rightarrow> Inl e
      | Inr srs_hash \<Rightarrow>
          (case process_stream E dst hash_update buffer_size [] of
             Inl e \<Rightarrow> Inl e
           | Inr dst_hash \<Rightarrow> Inr (sha256 E srs_hash = sha256 E dst_hash)))"

definition already_exists :: "path \<Rightarrow> error" where
  "already_exists destination =
     ValueError (''Destination file '' @ path_str (absolute destination) @ '' already exists.'')"

definition overwrite_or_refuse :: "env \<Rightarrow> path \<Rightarrow> bool option \<Rightarrow> error + unit" where
  \<comment> \<open>lines 152-155: \<open>None\<close> asks the user, a refusal raises\<close>
  "overwrite_or_refuse E destination overwrite =
     (case (case overwrite of
              None \<Rightarrow> confirm E (''Destination file '' @ path_str (absolute destination)
                                  @ '' already exists. Do you want to overwrite it?'')
            | Some b \<Rightarrow> Inr b) of
        Inl e \<Rightarrow> Inl e
      | Inr b \<Rightarrow> if \<not> b then Inl (already_exists destination) else Inr ())"

definition count_file :: "int \<Rightarrow> Stats \<Rightarrow> Stats" where
  \<comment> \<open>lines 156-157\<close>
  "count_file src_size s =
     s\<lparr>file_counter := file_counter s + 1, size_counter := size_counter s + src_size\<rparr>"

definition transfer ::
  "env \<Rightarrow> path \<Rightarrow> path \<Rightarrow> int \<Rightarrow> bool \<Rightarrow> int \<Rightarrow> state \<Rightarrow> (error + unit) \<times> state" where
  \<comment> \<open>lines 156-162: count the file, then (unless dry) create the parent directory, open
      both files and stream the source into the destination\<close>
  "transfer E source destination buffer_size dry src_size w =
     (let w1 = w\<lparr>stats := count_file src_size (stats w)\<rparr> in
      if dry then (Inr (), w1)
      else
        (case mkdir_parents (fs w1) (parent destination) of
           Inl e \<Rightarrow> (Inl e, w1)
         | Inr fs1 \<Rightarrow>
             (let fs2 = open_wb fs1 destination in
              case process_stream E (content fs2 source) dst_write buffer_size [] of
                Inl e \<Rightarrow> (Inl e, w1\<lparr>fs := fs2\<rparr>)
              | Inr written \<Rightarrow> (Inr (), w1\<lparr>fs := write_file fs2 destination written\<rparr>))))"

definition copy_file ::
  "env \<Rightarrow> path \<Rightarrow> path \<Rightarrow> int \<Rightarrow> bool option \<Rightarrow> bool \<Rightarrow> state \<Rightarrow> (error + unit) \<times> state" where
  "copy_file E source destination buffer_size overwrite dry w =
     (if path_str (absolute source) = path_str (absolute destination) then (Inr (), w)
      else if \<not> exists (fs w) source \<or> \<not> is_file (fs w) source then
        (Inl (ValueError (''Can not copy from '' @ path_str source @ '' because it is not a file.'')), w)
      else
        (let src_size = st_size (fs w) source in
         if exists (fs w) destination then
           (if \<not> is_file (fs w) destination then
              (Inl (ValueError (''Destination location '' @ path_str destination @ '' is not a file.'')), w)
            else
              (let dst_size = st_size (fs w) destination in
               case (if src_size = dst_size
                     then digests_equal E buffer_size (content (fs w) source) (content (fs w) destination)
                     else Inr False) of
                 Inl e \<Rightarrow> (Inl e, w)
               | Inr same \<Rightarrow>
                   if same then (Inr (), w)
                   else
                     (case overwrite_or_refuse E destination overwrite of
                        Inl e \<Rightarrow> (Inl e, w)
                      | Inr _ \<Rightarrow> transfer E source destination buffer_size dry src_size w)))
         else transfer E source destination buffer_size dry src_size w))"

subsection \<open>copy_directory\<close>

fun copy_items ::
  "env \<Rightarrow> path \<Rightarrow> path \<Rightarrow> int \<Rightarrow> bool option \<Rightarrow> bool \<Rightarrow> path list \<Rightarrow> state \<Rightarrow> (error + unit) \<times> state" where
  \<comment> \<open>the loop of lines 120-125 over the entries listed before it starts\<close>
  "copy_items E source destination buffer_size overwrite dry [] w = (Inr (), w)"
| "copy_items E source destination buffer_size overwrite dry (item # items) w =
     (case relative_to item source of
        Inl e \<Rightarrow> (Inl e, w)
      | Inr rel \<Rightarrow>
          (let dst_file = joinpath destination rel in
           if is_file (fs w) item then
             (case copy_file E item dst_file buffer_size overwrite dry w of
                (Inl e, w') \<Rightarrow> (Inl e, w')
              | (Inr _, w') \<Rightarrow> copy_items E source destination buffer_size overwrite dry items w')
           else if \<not> dry then
             (case mkdir_parents (fs w) dst_file of
                Inl e \<Rightarrow> (Inl e, w)
              | Inr fs' \<Rightarrow>
                  copy_items E source destination buffer_size overwrite dry items (w\<lparr>fs := fs'\<rparr>))
           else copy_items E source destination buffer_size overwrite dry items w))"

definition copy_directory ::
  "env \<Rightarrow> path \<Rightarrow> path \<Rightarrow> int \<Rightarrow> bool option \<Rightarrow> bool \<Rightarrow> state \<Rightarrow> (error + unit) \<times> state" where
  "copy_directory E source destination buffer_size overwrite dry w =
     (if \<not> exists (fs w) source \<or> \<not> is_dir (fs w) source then
        (Inl (ValueError (''Can not copy directory '' @ path_str source @ '' because it is a file.'')), w)
      else if exists (fs w) destination \<and> is_file (fs w) destination then
        (Inl (ValueError (''Can not copy directory '' @ path_str source @ '' to file ''
                          @ path_str destination @ ''.'')), w)
      else copy_items E source destination buffer_size overwrite dry (rglob (fs w) source) w)"

subsection \<open>copy, the command\<close>

definition echo :: "string \<Rightarrow> state \<Rightarrow> state" where
  "echo msg w = w\<lparr>stdout := stdout w @ [msg]\<rparr>"

fun error_str :: "error \<Rightarrow> string" where
  "error_str (ValueError msg) = msg"
| "error_str ZeroDivisionError = ''float division by zero''"
| "error_str (FileExistsError p) = ''[Errno 17] File exists: '' @ [CHR 0x27] @ p @ [CHR 0x27]"
| "error_str (NotADirectoryError p) = ''[Errno 20] Not a directory: '' @ [CHR 0x27] @ p @ [CHR 0x27]"
| "error_str (OverflowError msg) = msg"
| "error_str MemoryError = []"
| "error_str Abort = []"

definition exit_failure :: "error \<Rightarrow> state \<Rightarrow> int option \<times> state" where
  \<comment> \<open>lines 104-106: the message goes to stderr and the process exits with status -1\<close>
  "exit_failure e w = (Some (- 1), w\<lparr>stderr := stderr w @ [error_str e]\<rparr>)"

definition join_name :: "path \<Rightarrow> string \<Rightarrow> path" where
  \<comment> \<open>\<^verbatim>\<open>p / s\<close> for one segment; an empty segment adds nothing\<close>
  "join_name p s = (if s = [] then p else p @ [s])"

definition dispatch ::
  "env \<Rightarrow> path \<Rightarrow> path \<Rightarrow> int \<Rightarrow> bool option \<Rightarrow> bool \<Rightarrow> state \<Rightarrow> (error + unit) \<times> state" where
  \<comment> \<open>lines 96-101, the body of the \<^verbatim>\<open>with stats:\<close> block\<close>
  "dispatch E source destination buffer overwrite dry_run w =
     (if is_file (fs w) source then
        (let destination =
               (if exists (fs w) destination \<and> is_dir (fs w) destination
                then join_name destination (name source) else destination)
         in copy_file E source destination buffer overwrite dry_run w)
      else copy_directory E source destination buffer overwrite dry_run w)"

definition report :: "env \<Rightarrow> Stats \<Rightarrow> error + string" where
  \<comment> \<open>the f-string of line 103; its fields are evaluated left to right\<close>
  "report E s =
     (case time E s of
        Inl e \<Rightarrow> Inl e
      | Inr t \<Rightarrow>
          (case speed E s of
             Inl e \<Rightarrow> Inl e
           | Inr v \<Rightarrow>
               Inr (''Copied '' @ size_fmt E s @ '' of '' @ files E s @ '' file(s) in '' @ t
                    @ '' ('' @ v @ '').'')))"

definition copy ::
  "env \<Rightarrow> path \<Rightarrow> path \<Rightarrow> int \<Rightarrow> bool option \<Rightarrow> bool \<Rightarrow> bool \<Rightarrow> state \<Rightarrow> int option \<times> state" where
  \<comment> \<open>the result is the exit status (\<open>None\<close>: the command returned) and the final state\<close>
  "copy E source destination buffer overwrite dry_run quiet w =
     (let w1 = (if \<not> quiet
                then echo (''Copying from '' @ path_str (absolute source) @ '' to ''
                           @ path_str (absolute destination)) w
                else w);
          w2 = Stats_enter E (w1\<lparr>stats := Stats_init\<rparr>)
      in case dispatch E source destination buffer overwrite dry_run w2 of
           (r, w3) \<Rightarrow>
             (let w4 = Stats_exit E w3 in
              case r of
                Inl e \<Rightarrow> exit_failure e w4
              | Inr _ \<Rightarrow>
                  if \<not> quiet then
                    (case report E (stats w4) of
                       Inl e \<Rightarrow> exit_failure e w4
                     | Inr msg \<Rightarrow> (None, echo msg w4))
                  else (None, w4)))"

subsection \<open>Concrete inputs\<close>

text \<open>
  A small world to run the model on: a root with two three-byte files of different
  content, a longer file, a copy of the first file, and a directory with one file. The
  stand-in for the hash returns its input, so it has no collisions; the machine provides
  buffers of up to 2 GiB.
\<close>

definition E0 :: env where
  "E0 = \<lparr>sha256 = (\<lambda>bs. bs), confirm = (\<lambda>prompt. Inr True), perf_counter = (\<lambda>i. real i),
          naturalsize = (\<lambda>v. []), intcomma = (\<lambda>n. []), precisedelta = (\<lambda>v. []),
          alloc_error = (\<lambda>n. if 2147483648 < n then Some MemoryError else None)\<rparr>"

definition fs0 :: filesystem where
  "fs0 = [([], Dir),
          ([''a''], File [1, 2, 3]),
          ([''b''], File [1, 2, 4]),
          ([''c''], File [1, 2, 3, 4]),
          ([''e''], File [1, 2, 3]),
          ([''d''], Dir),
          ([''d'', ''a''], File [9])]"

definition w0 :: state where
  "w0 = \<lparr>fs = fs0, stats = Stats_init, ticks = 0, stdout = [], stderr = []\<rparr>"

section \<open>Properties\<close>

subsection \<open>Streams and digests\<close>

lemma process_stream_zero: "process_stream E stream callback 0 acc = Inr acc"
  by (subst process_stream.simps) (simp add: read_def)

lemma process_stream_all:
  assumes "alloc_error E (int (length stream)) = None"
  shows "process_stream E stream callback (- 1) acc =
           Inr (if stream = [] then acc else callback acc stream)"
proof (cases "stream = []")
  case True
  then show ?thesis by (subst process_stream.simps) (simp add: read_def)
next
  case False
  have "process_stream E [] callback (- 1) (callback acc stream) = Inr (callback acc stream)"
    by (subst process_stream.simps) (simp add: read_def)
  with False assms show ?thesis
    by (subst process_stream.simps) (simp add: read_def)
qed

lemma process_stream_below:
  "- (2 ^ 63) \<le> buffer \<Longrightarrow> buffer < - 1 \<Longrightarrow>
   process_stream E stream callback buffer acc =
     Inl (ValueError ''read length must be non-negative or -1'')"
  by (subst process_stream.simps) (simp add: read_def)

lemma process_stream_index:
  "buffer < - (2 ^ 63) \<or> 2 ^ 63 \<le> buffer \<Longrightarrow>
   process_stream E stream callback buffer acc = Inl index_error"
  by (subst process_stream.simps) (auto simp: read_def)

lemma read_chunk:
  "0 < n \<Longrightarrow> n < 2 ^ 63 \<Longrightarrow> alloc_error E n = None \<Longrightarrow>
   read E stream n = Inr (take (nat n) stream, drop (nat n) stream)"
  by (simp add: read_def)

text \<open>
  With a positive chunk size that the reader can provide, the chunks, appended one after
  the other, are the stream.
\<close>

lemma process_stream_append:
  "0 < buffer \<Longrightarrow> buffer < 2 ^ 63 \<Longrightarrow> alloc_error E buffer = None \<Longrightarrow>
   process_stream E stream (\<lambda>a b. a @ b) buffer acc = Inr (acc @ stream)"
proof (induction E stream "(\<lambda>a b. a @ b) :: bytes \<Rightarrow> bytes \<Rightarrow> bytes" buffer acc
    rule: process_stream.induct)
  case (1 E stream buffer acc)
  note r = read_chunk [OF 1(2) 1(3) 1(4), of stream]
  show ?case
  proof (cases "take (nat buffer) stream = []")
    case True
    with 1(2) have "stream = []" by (auto simp: take_eq_Nil)
    then show ?thesis using r by (subst process_stream.simps) simp
  next
    case False
    have "process_stream E (drop (nat buffer) stream) (@) buffer (acc @ take (nat buffer) stream)
          = Inr ((acc @ take (nat buffer) stream) @ drop (nat buffer) stream)"
      using 1(1) [OF r refl False 1(2) 1(3) 1(4)] .
    then show ?thesis using False r
      by (subst process_stream.simps) simp
  qed
qed

lemma process_stream_whole:
  assumes "(0 < buffer \<and> buffer < 2 ^ 63 \<and> alloc_error E buffer = None)
           \<or> (buffer = - 1 \<and> alloc_error E (int (length stream)) = None)"
  shows "process_stream E stream (\<lambda>a b. a @ b) buffer [] = Inr stream"
  using assms by (auto simp: process_stream_append process_stream_all)

lemma hash_update_append: "hash_update = (\<lambda>a b. a @ b)"
  by (intro ext) (simp add: hash_update_def)

lemma dst_write_append: "dst_write = (\<lambda>a b. a @ b)"
  by (intro ext) (simp add: dst_write_def)

lemma digests_equal_zero: "digests_equal E 0 src dst = Inr True"
  by (simp add: digests_equal_def process_stream_zero)

lemma digests_equal_whole:
  assumes "(0 < buffer \<and> buffer < 2 ^ 63 \<and> alloc_error E buffer = None)
           \<or> (buffer = - 1 \<and> alloc_error E (int (length src)) = None
               \<and> alloc_error E (int (length dst)) = None)"
  shows "digests_equal E buffer src dst = Inr (sha256 E src = sha256 E dst)"
proof -
  have "process_stream E src (\<lambda>a b. a @ b) buffer [] = Inr src"
    and "process_stream E dst (\<lambda>a b. a @ b) buffer [] = Inr dst"
    using assms by (auto intro: process_stream_whole)
  then show ?thesis
    by (simp add: digests_equal_def hash_update_append)
qed

lemma digests_equal_below:
  "- (2 ^ 63) \<le> buffer \<Longrightarrow> buffer < - 1 \<Longrightarrow>
   digests_equal E buffer src dst = Inl (ValueError ''read length must be non-negative or -1'')"
  by (simp add: digests_equal_def process_stream_below)

lemma digests_equal_index:
  "buffer < - (2 ^ 63) \<or> 2 ^ 63 \<le> buffer \<Longrightarrow> digests_equal E buffer src dst = Inl index_error"
  by (simp add: digests_equal_def process_stream_index)

subsection \<open>Files\<close>

lemma file_facts:
  assumes "map_of t p = Some (File bs)"
  shows "exists t p" "is_file t p" "\<not> is_dir t p" "content t p = bs"
    "st_size t p = int (length bs)"
  using assms by (simp_all add: exists_def is_file_def is_dir_def content_def st_size_def)

lemma fs0_lookups:
  "map_of (fs w0) [''a''] = Some (File [1, 2, 3])"
  "map_of (fs w0) [''b''] = Some (File [1, 2, 4])"
  "map_of (fs w0) [''c''] = Some (File [1, 2, 3, 4])"
  "map_of (fs w0) [''e''] = Some (File [1, 2, 3])"
  "map_of (fs w0) [''d''] = Some Dir"
  "map_of (fs w0) [''d'', ''a''] = Some (File [9])"
  "map_of (fs w0) [''x''] = None"
  "map_of (fs w0) [''d'', ''x''] = None"
  by (simp_all add: w0_def fs0_def)

lemma fs0_tests:
  "is_file (fs w0) [''a'']" "exists (fs w0) [''d'']" "is_dir (fs w0) [''d'']"
  "\<not> exists (fs w0) [''x'']" "exists (fs w0) [''a'']" "\<not> is_dir (fs w0) [''a'']"
  "\<not> is_file (fs w0) [''d'']" "\<not> is_file (fs w0) [''x'']"
  by (simp_all add: w0_def fs0_def is_file_def exists_def is_dir_def)

lemma w0_counters: "file_counter (stats w0) = 0" "size_counter (stats w0) = 0"
  by (simp_all add: w0_def Stats_init_def)

lemma path_str_simps:
  "path_str [] = ''/''" "path_str [c] = ''/'' @ c" "path_str [c, d] = ''/'' @ c @ ''/'' @ d"
  by (simp_all add: path_str_def)

lemma mkdir_root: "mkdir_parents (fs w0) (parent [''x'']) = Inr (fs w0)"
  by (simp add: mkdir_parents_def parent_def is_file_def exists_def w0_def fs0_def)

lemma map_of_written: "map_of (write_file (open_wb t p) p bs) p = Some (File bs)"
  by (simp add: write_file_def open_wb_def update_conv')

lemma process_stream_sha256:
  "process_stream (E\<lparr>sha256 := h\<rparr>) stream callback buffer acc =
     process_stream E stream callback buffer acc"
proof (induction E stream callback buffer acc rule: process_stream.induct)
  case (1 E stream callback buffer acc)
  have r: "read (E\<lparr>sha256 := h\<rparr>) stream buffer = read E stream buffer"
    by (simp add: read_def)
  show ?case
  proof (cases "read E stream buffer")
    case (Inl e)
    then show ?thesis
      by (subst process_stream.simps, simp add: r, subst process_stream.simps, simp)
  next
    case (Inr b)
    obtain buf rest where b: "b = (buf, rest)" by (cases b)
    show ?thesis
    proof (cases "buf = []")
      case True
      with Inr b show ?thesis
        by (subst process_stream.simps, simp add: r, subst process_stream.simps, simp)
    next
      case False
      have ih: "process_stream (E\<lparr>sha256 := h\<rparr>) rest callback buffer (callback acc buf) =
                  process_stream E rest callback buffer (callback acc buf)"
        using 1 [OF Inr b [symmetric] False] .
      have "process_stream (E\<lparr>sha256 := h\<rparr>) stream callback buffer acc =
              process_stream (E\<lparr>sha256 := h\<rparr>) rest callback buffer (callback acc buf)"
        using Inr b False by (subst process_stream.simps) (simp add: r)
      moreover have "process_stream E stream callback buffer acc =
              process_stream E rest callback buffer (callback acc buf)"
        using Inr b False by (subst process_stream.simps) simp
      ultimately show ?thesis using ih by simp
    qed
  qed
qed

lemma transfer_sha256:
  "transfer (E\<lparr>sha256 := h\<rparr>) source destination buffer_size dry src_size w =
     transfer E source destination buffer_size dry src_size w"
  unfolding transfer_def process_stream_sha256 by (rule refl)

lemma overwrite_or_refuse_sha256:
  "overwrite_or_refuse (E\<lparr>sha256 := h\<rparr>) destination overwrite = overwrite_or_refuse E destination overwrite"
  by (cases overwrite) (simp_all add: overwrite_or_refuse_def)

subsection \<open>Claims about Stats\<close>

text \<open>
  C1 (as the code has it). The claim says that a closed window of zero elapsed time makes
  the throughput query an error \<^emph>\<open>rather than\<close> a division by zero. \<^verbatim>\<open>Stats.speed\<close> has
  no check of the elapsed time: it evaluates the division, and the error that leaves the
  property is the \<^verbatim>\<open>ZeroDivisionError\<close> of that division. At a window opened and closed
  at instant 1 with 3 bytes counted:
\<close>

theorem speed_zero_elapsed_is_division_error:
  "truediv (real_of_int 3) (1 - 1) = Inl ZeroDivisionError
   \<and> speed E0 \<lparr>start_time = Some 1, end_time = Some 1, file_counter = 1, size_counter = 3\<rparr>
       = Inl ZeroDivisionError"
  by (simp add: speed_def truediv_def)

text \<open>
  C1 (amended). For every stats record with a closed window whose elapsed time is zero,
  querying the throughput raises: the division is evaluated with a zero divisor and
  raises \<^verbatim>\<open>ZeroDivisionError\<close>; no throughput is returned.
\<close>

theorem speed_zero_elapsed:
  assumes "start_time s = Some t0" and "end_time s = Some t1" and "t1 - t0 = 0"
  shows "speed E s = Inl ZeroDivisionError"
  using assms by (simp add: speed_def truediv_def)

theorem speed_zero_elapsed_witness:
  "start_time \<lparr>start_time = Some 2, end_time = Some 2, file_counter = 0, size_counter = 0\<rparr> = Some 2
   \<and> end_time \<lparr>start_time = Some 2, end_time = Some 2, file_counter = 0, size_counter = 0\<rparr> = Some 2
   \<and> (2::real) - 2 = 0
   \<and> speed E0 \<lparr>start_time = Some 2, end_time = Some 2, file_counter = 0, size_counter = 0\<rparr>
       = Inl ZeroDivisionError"
  using speed_zero_elapsed [where s = "\<lparr>start_time = Some 2, end_time = Some 2, file_counter = 0, size_counter = 0\<rparr>"
      and ?t0.0 = 2 and ?t1.0 = 2 and E = E0]
  by simp

subsection \<open>Claims about copy_file\<close>

text \<open>
  C4. When source and destination print as the same absolute path, \<open>copy_file\<close> returns
  at once: no error, and the state (file system and both counters) is the one it was
  given, whatever the other arguments are.
\<close>

theorem copy_file_same_path:
  "path_str (absolute source) = path_str (absolute destination) \<Longrightarrow>
   copy_file E source destination buffer_size overwrite dry w = (Inr (), w)"
  by (simp add: copy_file_def)

theorem copy_file_same_path_witness:
  "path_str (absolute [''a'']) = path_str (absolute [''a''])
   \<and> copy_file E0 [''a''] [''a''] 2 (Some True) False w0 = (Inr (), w0)"
  using copy_file_same_path [where source = "[''a'']" and destination = "[''a'']" and E = E0
      and buffer_size = 2 and overwrite = "Some True" and dry = False and w = w0]
  by simp

text \<open>
  C3 (as the code has it). The claim lets any chunk size through, but the digests are
  computed by reading both files with it, and a read that fails leaves \<open>copy_file\<close> with
  the reader's error instead of a skip. \<^verbatim>\<open>/a\<close> and \<^verbatim>\<open>/e\<close> are regular files of the same
  three bytes, hence of equal size and digest; with a chunk size of \<open>2 ^ 63\<close>, which is
  positive, the copy raises \<^verbatim>\<open>OverflowError\<close>, and with -5 it raises \<^verbatim>\<open>ValueError\<close>.
\<close>

theorem copy_file_skip_needs_readable_chunk:
  "map_of (fs w0) [''a''] = Some (File [1, 2, 3])
   \<and> map_of (fs w0) [''e''] = Some (File [1, 2, 3])
   \<and> sha256 E0 [1, 2, 3] = sha256 E0 [1, 2, 3]
   \<and> copy_file E0 [''a''] [''e''] 9223372036854775808 (Some True) False w0 = (Inl index_error, w0)
   \<and> copy_file E0 [''a''] [''e''] (- 5) (Some True) False w0 =
       (Inl (ValueError ''read length must be non-negative or -1''), w0)"
  by (simp add: copy_file_def file_facts [OF fs0_lookups(1)] file_facts [OF fs0_lookups(4)]
      fs0_lookups path_str_simps absolute_def digests_equal_below digests_equal_index)

text \<open>
  C3 (amended). When the destination is a regular file of the source's size, the digests
  of the two contents are equal, and the chunk size is one with which the files can be
  read (0; or positive, below \<open>2 ^ 63\<close> and within what the reader can allocate; or -1 with
  a file the reader can hold), \<open>copy_file\<close> returns without error and hands back the
  state unchanged: no counter is touched and nothing is written.
\<close>

theorem copy_file_skip:
  assumes "map_of (fs w) source = Some (File sc)"
    and "map_of (fs w) destination = Some (File dc)"
    and "length sc = length dc"
    and "sha256 E sc = sha256 E dc"
    and "buffer_size = 0
         \<or> (0 < buffer_size \<and> buffer_size < 2 ^ 63 \<and> alloc_error E buffer_size = None)
         \<or> (buffer_size = - 1 \<and> alloc_error E (int (length sc)) = None)"
  shows "copy_file E source destination buffer_size overwrite dry w = (Inr (), w)"
proof -
  have "digests_equal E buffer_size sc dc = Inr True"
  proof (cases "buffer_size = 0")
    case True
    then show ?thesis by (simp add: digests_equal_zero)
  next
    case False
    with assms(3,5)
    have "(0 < buffer_size \<and> buffer_size < 2 ^ 63 \<and> alloc_error E buffer_size = None)
          \<or> (buffer_size = - 1 \<and> alloc_error E (int (length sc)) = None
              \<and> alloc_error E (int (length dc)) = None)"
      by auto
    from digests_equal_whole [OF this] assms(4) show ?thesis by simp
  qed
  then show ?thesis
    using assms(1-3) by (simp add: copy_file_def file_facts)
qed

theorem copy_file_skip_witness:
  "map_of (fs w0) [''a''] = Some (File [1, 2, 3])
   \<and> map_of (fs w0) [''e''] = Some (File [1, 2, 3])
   \<and> length [1, 2, 3 :: byte] = length [1, 2, 3 :: byte]
   \<and> sha256 E0 [1, 2, 3] = sha256 E0 [1, 2, 3]
   \<and> 0 < (2::int) \<and> (2::int) < 2 ^ 63 \<and> alloc_error E0 2 = None
   \<and> copy_file E0 [''a''] [''e''] 2 (Some False) False w0 = (Inr (), w0)"
  using copy_file_skip [where w = w0 and source = "[''a'']" and destination = "[''e'']"
      and sc = "[1, 2, 3]" and dc = "[1, 2, 3]" and E = E0 and buffer_size = 2
      and overwrite = "Some False" and dry = False]
  by (simp add: fs0_lookups E0_def)

text \<open>
  C2 (as the code has it). The claim lets any chunk size through, but two files of the
  same size are told apart only by digests read with it. \<^verbatim>\<open>/a\<close> and \<^verbatim>\<open>/b\<close> are regular
  files of three bytes with different content, and overwriting is refused. With a chunk
  size of 0 nothing is read, the digests agree and \<open>copy_file\<close> returns without any
  error; with \<open>2 ^ 63\<close>, which is positive, it raises the reader's \<^verbatim>\<open>OverflowError\<close>, which
  does not name the destination.
\<close>

theorem copy_file_refusal_needs_readable_chunk:
  "map_of (fs w0) [''a''] = Some (File [1, 2, 3])
   \<and> map_of (fs w0) [''b''] = Some (File [1, 2, 4])
   \<and> [1, 2, 3 :: byte] \<noteq> [1, 2, 4]
   \<and> copy_file E0 [''a''] [''b''] 0 (Some False) False w0 = (Inr (), w0)
   \<and> copy_file E0 [''a''] [''b''] 9223372036854775808 (Some False) False w0 =
       (Inl index_error, w0)"
  by (simp add: copy_file_def file_facts [OF fs0_lookups(1)] file_facts [OF fs0_lookups(2)]
      fs0_lookups path_str_simps absolute_def digests_equal_zero digests_equal_index)

text \<open>
  C2 (amended). When the destination is a regular file and overwriting is refused
  (\<open>Some False\<close>), \<open>copy_file\<close> raises the error that names the destination and hands
  back the state unchanged (the destination's content and both counters are as before)
  in two cases: the sizes differ, whatever the chunk size; or the digests of the two
  contents differ and the chunk size is one with which the files can be read whole
  (positive, below \<open>2 ^ 63\<close> and within what the reader can allocate; or -1 with files the
  reader can hold). The program tells contents apart by their SHA-256 digests.
\<close>

theorem copy_file_refused:
  assumes "path_str (absolute source) \<noteq> path_str (absolute destination)"
    and "map_of (fs w) source = Some (File sc)"
    and "map_of (fs w) destination = Some (File dc)"
    and "length sc \<noteq> length dc
         \<or> (sha256 E sc \<noteq> sha256 E dc
            \<and> ((0 < buffer_size \<and> buffer_size < 2 ^ 63 \<and> alloc_error E buffer_size = None)
               \<or> (buffer_size = - 1 \<and> alloc_error E (int (length sc)) = None
                   \<and> alloc_error E (int (length dc)) = None)))"
  shows "copy_file E source destination buffer_size (Some False) dry w =
           (Inl (ValueError (''Destination file '' @ path_str destination @ '' already exists.'')), w)"
proof -
  have "(if st_size (fs w) source = st_size (fs w) destination
         then digests_equal E buffer_size (content (fs w) source) (content (fs w) destination)
         else Inr False) = Inr False"
  proof (cases "length sc = length dc")
    case True
    with assms(4)
    have d: "sha256 E sc \<noteq> sha256 E dc"
      and c: "(0 < buffer_size \<and> buffer_size < 2 ^ 63 \<and> alloc_error E buffer_size = None)
              \<or> (buffer_size = - 1 \<and> alloc_error E (int (length sc)) = None
                  \<and> alloc_error E (int (length dc)) = None)"
      by auto
    from digests_equal_whole [OF c] d show ?thesis
      using assms(2,3) by (simp add: file_facts)
  next
    case False
    then show ?thesis using assms(2,3) by (simp add: file_facts)
  qed
  then show ?thesis
    using assms(1-3)
    by (simp add: copy_file_def file_facts overwrite_or_refuse_def already_exists_def absolute_def)
qed

theorem copy_file_refused_witness:
  "path_str (absolute [''a'']) \<noteq> path_str (absolute [''b''])
   \<and> map_of (fs w0) [''a''] = Some (File [1, 2, 3])
   \<and> map_of (fs w0) [''b''] = Some (File [1, 2, 4])
   \<and> length [1, 2, 3 :: byte] = length [1, 2, 4 :: byte]
   \<and> sha256 E0 [1, 2, 3] \<noteq> sha256 E0 [1, 2, 4]
   \<and> 0 < (2::int) \<and> (2::int) < 2 ^ 63 \<and> alloc_error E0 2 = None
   \<and> copy_file E0 [''a''] [''b''] 2 (Some False) False w0 =
       (Inl (ValueError (''Destination file '' @ path_str [''b''] @ '' already exists.'')), w0)"
  using copy_file_refused [where source = "[''a'']" and destination = "[''b'']" and w = w0
      and sc = "[1, 2, 3]" and dc = "[1, 2, 4]" and E = E0 and buffer_size = 2 and dry = False]
  by (simp add: fs0_lookups path_str_def absolute_def E0_def)

text \<open>
  C8. When the destination is a regular file whose size differs from the source's,
  \<open>copy_file\<close> is the overwrite decision followed by the transfer: neither reads a
  stream into a hash object, and the result is the same whatever the hash function is.
\<close>

theorem copy_file_sizes_differ:
  assumes "path_str (absolute source) \<noteq> path_str (absolute destination)"
    and "map_of (fs w) source = Some (File sc)"
    and "map_of (fs w) destination = Some (File dc)"
    and "length sc \<noteq> length dc"
  shows "copy_file E source destination buffer_size overwrite dry w =
           (case overwrite_or_refuse E destination overwrite of
              Inl e \<Rightarrow> (Inl e, w)
            | Inr _ \<Rightarrow> transfer E source destination buffer_size dry (int (length sc)) w)
         \<and> copy_file (E\<lparr>sha256 := h\<rparr>) source destination buffer_size overwrite dry w =
             copy_file E source destination buffer_size overwrite dry w"
  using assms
  by (simp add: copy_file_def file_facts overwrite_or_refuse_sha256 transfer_sha256
      split: sum.splits)

theorem copy_file_sizes_differ_witness:
  "path_str (absolute [''a'']) \<noteq> path_str (absolute [''c''])
   \<and> map_of (fs w0) [''a''] = Some (File [1, 2, 3])
   \<and> map_of (fs w0) [''c''] = Some (File [1, 2, 3, 4])
   \<and> length [1, 2, 3 :: byte] \<noteq> length [1, 2, 3, 4 :: byte]
   \<and> copy_file E0 [''a''] [''c''] (- 5) (Some False) False w0 =
       (Inl (ValueError ''Destination file /c already exists.''), w0)
   \<and> copy_file (E0\<lparr>sha256 := (\<lambda>bs. [])\<rparr>) [''a''] [''c''] (- 5) (Some False) False w0 =
       copy_file E0 [''a''] [''c''] (- 5) (Some False) False w0"
  using copy_file_sizes_differ [where source = "[''a'']" and destination = "[''c'']" and w = w0
      and sc = "[1, 2, 3]" and dc = "[1, 2, 3, 4]" and E = E0 and buffer_size = "- 5"
      and overwrite = "Some False" and dry = False and h = "\<lambda>bs. []"]
  by (simp add: fs0_lookups path_str_simps absolute_def overwrite_or_refuse_def already_exists_def)

text \<open>
  C10. No function checks that the chunk size is positive. With a chunk size of 0 the
  first read of \<open>process_stream\<close> returns no bytes, so the callback is never applied
  and the accumulator comes back as it was, for every stream. Hence \<open>copy_file\<close> takes
  any two regular files of the same size for identical and skips the copy; and a copy
  that is performed (destination absent, or of another size with the overwrite granted)
  counts the source's length and leaves an empty destination file.
\<close>

theorem zero_buffer_reads_nothing:
  "process_stream E stream callback 0 acc = Inr acc
   \<and> digests_equal E 0 sc dc = Inr True
   \<and> (path_str (absolute source) \<noteq> path_str (absolute destination)
      \<and> map_of (fs w) source = Some (File sc)
      \<and> map_of (fs w) destination = Some (File dc)
      \<and> length sc = length dc
      \<longrightarrow> copy_file E source destination 0 overwrite dry w = (Inr (), w))
   \<and> (path_str (absolute source) \<noteq> path_str (absolute destination)
      \<and> map_of (fs w) source = Some (File sc)
      \<and> (map_of (fs w) destination = None
          \<or> (\<exists>dc. map_of (fs w) destination = Some (File dc) \<and> length sc \<noteq> length dc
                  \<and> overwrite_or_refuse E destination overwrite = Inr ()))
      \<and> mkdir_parents (fs w) (parent destination) = Inr fs1
      \<longrightarrow> copy_file E source destination 0 overwrite False w =
            (Inr (), w\<lparr>stats := count_file (int (length sc)) (stats w),
                       fs := write_file (open_wb fs1 destination) destination []\<rparr>)
          \<and> map_of (write_file (open_wb fs1 destination) destination []) destination = Some (File []))"
proof (intro conjI impI)
  show "process_stream E stream callback 0 acc = Inr acc"
    by (rule process_stream_zero)
next
  show "digests_equal E 0 sc dc = Inr True"
    by (rule digests_equal_zero)
next
  assume "path_str (absolute source) \<noteq> path_str (absolute destination)
      \<and> map_of (fs w) source = Some (File sc)
      \<and> map_of (fs w) destination = Some (File dc)
      \<and> length sc = length dc"
  then show "copy_file E source destination 0 overwrite dry w = (Inr (), w)"
    by (simp add: copy_file_def file_facts digests_equal_zero)
next
  assume a: "path_str (absolute source) \<noteq> path_str (absolute destination)
      \<and> map_of (fs w) source = Some (File sc)
      \<and> (map_of (fs w) destination = None
          \<or> (\<exists>dc. map_of (fs w) destination = Some (File dc) \<and> length sc \<noteq> length dc
                  \<and> overwrite_or_refuse E destination overwrite = Inr ()))
      \<and> mkdir_parents (fs w) (parent destination) = Inr fs1"
  then have src: "map_of (fs w) source = Some (File sc)" by simp
  have "copy_file E source destination 0 overwrite False w =
          transfer E source destination 0 False (int (length sc)) w"
    using a by (auto simp: copy_file_def file_facts[OF src] file_facts exists_def Let_def)
  also have "\<dots> = (Inr (), w\<lparr>stats := count_file (int (length sc)) (stats w),
                       fs := write_file (open_wb fs1 destination) destination []\<rparr>)"
    using a by (simp add: transfer_def process_stream_zero Let_def)
  finally show "copy_file E source destination 0 overwrite False w =
            (Inr (), w\<lparr>stats := count_file (int (length sc)) (stats w),
                       fs := write_file (open_wb fs1 destination) destination []\<rparr>)" .
next
  show "map_of (write_file (open_wb fs1 destination) destination []) destination = Some (File [])"
    by (rule map_of_written)
qed

theorem zero_buffer_reads_nothing_witness:
  "process_stream E0 [1, 2, 3] hash_update 0 [] = Inr []
   \<and> path_str (absolute [''a'']) \<noteq> path_str (absolute [''b''])
   \<and> map_of (fs w0) [''a''] = Some (File [1, 2, 3])
   \<and> map_of (fs w0) [''b''] = Some (File [1, 2, 4])
   \<and> length [1, 2, 3 :: byte] = length [1, 2, 4 :: byte]
   \<and> copy_file E0 [''a''] [''b''] 0 (Some False) False w0 = (Inr (), w0)
   \<and> path_str (absolute [''a'']) \<noteq> path_str (absolute [''x''])
   \<and> map_of (fs w0) [''x''] = None
   \<and> mkdir_parents (fs w0) (parent [''x'']) = Inr (fs w0)
   \<and> copy_file E0 [''a''] [''x''] 0 (Some False) False w0 =
       (Inr (), w0\<lparr>stats := count_file 3 (stats w0),
                  fs := write_file (open_wb (fs w0) [''x'']) [''x''] []\<rparr>)
   \<and> map_of (write_file (open_wb (fs w0) [''x'']) [''x''] []) [''x''] = Some (File [])"
  using zero_buffer_reads_nothing [where stream = "[1, 2, 3]" and callback = hash_update
      and acc = "[]" and source = "[''a'']" and destination = "[''b'']" and w = w0
      and sc = "[1, 2, 3]" and dc = "[1, 2, 4]" and E = E0 and overwrite = "Some False"
      and dry = False and ?fs1.0 = "fs w0"]
    zero_buffer_reads_nothing [where stream = "[1, 2, 3]" and callback = hash_update
      and acc = "[]" and source = "[''a'']" and destination = "[''x'']" and w = w0
      and sc = "[1, 2, 3]" and dc = "[1, 2, 4]" and E = E0 and overwrite = "Some False"
      and dry = False and ?fs1.0 = "fs w0"]
  by (simp add: fs0_lookups path_str_simps absolute_def mkdir_root)

subsection \<open>Dry runs\<close>

lemma transfer_dry:
  "transfer E source destination buffer_size True src_size w =
     (Inr (), w\<lparr>stats := count_file src_size (stats w)\<rparr>)"
  by (simp add: transfer_def)

lemma copy_file_dry_fs: "fs (snd (copy_file E source destination buffer_size overwrite True w)) = fs w"
  by (simp add: copy_file_def transfer_dry Let_def split: sum.splits)

lemma copy_items_dry_fs:
  "fs (snd (copy_items E source destination buffer_size overwrite True items w)) = fs w"
proof (induction items arbitrary: w)
  case Nil
  show ?case by simp
next
  case (Cons item items)
  show ?case
  proof (cases "relative_to item source")
    case (Inl e)
    then show ?thesis by simp
  next
    case (Inr rel)
    obtain r1 w1 where c: "copy_file E item (joinpath destination rel) buffer_size overwrite True w = (r1, w1)"
      by (cases "copy_file E item (joinpath destination rel) buffer_size overwrite True w")
    have f: "fs w1 = fs w"
      using copy_file_dry_fs[of E item "joinpath destination rel" buffer_size overwrite w] c by simp
    show ?thesis
      using Inr c f Cons.IH[of w1] Cons.IH[of w]
      by (cases r1) (simp_all add: Let_def)
  qed
qed

lemma copy_directory_dry_fs:
  "fs (snd (copy_directory E source destination buffer_size overwrite True w)) = fs w"
  by (simp add: copy_directory_def copy_items_dry_fs)

text \<open>
  C5. In a dry run that reaches the copy (distinct paths, the source a regular file, the
  destination absent or a regular file found different and cleared for overwriting),
  \<open>copy_file\<close> returns without error with \<open>file_counter\<close> one higher and
  \<open>size_counter\<close> higher by the source's length, and nothing else in the state changed.
  The counters are those of a real copy. Whatever a dry run does, in \<open>copy_file\<close> and in
  \<open>copy_directory\<close>, the file system it leaves is the one it found: no file or directory
  is created or modified.
\<close>

theorem dry_run_counts_without_writing:
  "(path_str (absolute source) \<noteq> path_str (absolute destination)
    \<and> map_of (fs w) source = Some (File sc)
    \<and> (map_of (fs w) destination = None
        \<or> (\<exists>dc. map_of (fs w) destination = Some (File dc)
                \<and> (length sc \<noteq> length dc \<or> digests_equal E buffer_size sc dc = Inr False)
                \<and> overwrite_or_refuse E destination overwrite = Inr ()))
    \<longrightarrow> copy_file E source destination buffer_size overwrite True w =
          (Inr (), w\<lparr>stats := (stats w)\<lparr>file_counter := file_counter (stats w) + 1,
                                         size_counter := size_counter (stats w) + int (length sc)\<rparr>\<rparr>))
   \<and> stats (snd (transfer E source destination buffer_size dry src_size w)) =
       (stats w)\<lparr>file_counter := file_counter (stats w) + 1,
                 size_counter := size_counter (stats w) + src_size\<rparr>
   \<and> fs (snd (copy_file E source destination buffer_size overwrite True w)) = fs w
   \<and> fs (snd (copy_directory E source destination buffer_size overwrite True w)) = fs w"
proof (intro conjI impI)
  assume a: "path_str (absolute source) \<noteq> path_str (absolute destination)
    \<and> map_of (fs w) source = Some (File sc)
    \<and> (map_of (fs w) destination = None
        \<or> (\<exists>dc. map_of (fs w) destination = Some (File dc)
                \<and> (length sc \<noteq> length dc \<or> digests_equal E buffer_size sc dc = Inr False)
                \<and> overwrite_or_refuse E destination overwrite = Inr ()))"
  then have src: "map_of (fs w) source = Some (File sc)" by simp
  have "copy_file E source destination buffer_size overwrite True w =
          transfer E source destination buffer_size True (int (length sc)) w"
    using a by (auto simp: copy_file_def file_facts[OF src] file_facts exists_def Let_def)
  then show "copy_file E source destination buffer_size overwrite True w =
          (Inr (), w\<lparr>stats := (stats w)\<lparr>file_counter := file_counter (stats w) + 1,
                                         size_counter := size_counter (stats w) + int (length sc)\<rparr>\<rparr>)"
    by (simp add: transfer_dry count_file_def)
next
  show "stats (snd (transfer E source destination buffer_size dry src_size w)) =
       (stats w)\<lparr>file_counter := file_counter (stats w) + 1,
                 size_counter := size_counter (stats w) + src_size\<rparr>"
    by (simp add: transfer_def count_file_def Let_def split: sum.splits)
next
  show "fs (snd (copy_file E source destination buffer_size overwrite True w)) = fs w"
    by (rule copy_file_dry_fs)
next
  show "fs (snd (copy_directory E source destination buffer_size overwrite True w)) = fs w"
    by (rule copy_directory_dry_fs)
qed

theorem dry_run_counts_without_writing_witness:
  "path_str (absolute [''a'']) \<noteq> path_str (absolute [''x''])
   \<and> map_of (fs w0) [''a''] = Some (File [1, 2, 3])
   \<and> map_of (fs w0) [''x''] = None
   \<and> copy_file E0 [''a''] [''x''] 2 (Some False) True w0 =
       (Inr (), w0\<lparr>stats := (stats w0)\<lparr>file_counter := 1, size_counter := 3\<rparr>\<rparr>)
   \<and> fs (snd (copy_directory E0 [''d''] [''y''] 2 (Some False) True w0)) = fs w0"
  using dry_run_counts_without_writing [where source = "[''a'']" and destination = "[''x'']"
      and w = w0 and sc = "[1, 2, 3]" and E = E0 and buffer_size = 2 and overwrite = "Some False"]
    dry_run_counts_without_writing [where source = "[''d'']" and destination = "[''y'']"
      and w = w0 and sc = "[]" and E = E0 and buffer_size = 2 and overwrite = "Some False"]
  by (simp add: fs0_lookups path_str_simps absolute_def w0_counters)

subsection \<open>Claims about copy_directory\<close>

text \<open>
  C9. \<open>copy_directory\<close> raises a \<^verbatim>\<open>ValueError\<close> when the source does not exist or is
  not a directory, and when the destination exists and is a regular file; in both cases
  the state handed back is the state given: nothing is created and no counter moves.
\<close>

theorem copy_directory_preconditions:
  "(\<not> exists (fs w) source \<or> \<not> is_dir (fs w) source \<longrightarrow>
      copy_directory E source destination buffer_size overwrite dry w =
        (Inl (ValueError (''Can not copy directory '' @ path_str source @ '' because it is a file.'')), w))
   \<and> (exists (fs w) destination \<and> is_file (fs w) destination \<longrightarrow>
      copy_directory E source destination buffer_size overwrite dry w =
        (Inl (ValueError
           (if \<not> exists (fs w) source \<or> \<not> is_dir (fs w) source
            then ''Can not copy directory '' @ path_str source @ '' because it is a file.''
            else ''Can not copy directory '' @ path_str source @ '' to file ''
                 @ path_str destination @ ''.'')), w))"
  by (simp add: copy_directory_def)

theorem copy_directory_preconditions_witness:
  "\<not> exists (fs w0) [''x'']
   \<and> copy_directory E0 [''x''] [''y''] 2 None False w0 =
       (Inl (ValueError ''Can not copy directory /x because it is a file.''), w0)
   \<and> exists (fs w0) [''a''] \<and> is_file (fs w0) [''a'']
   \<and> copy_directory E0 [''d''] [''a''] 2 None False w0 =
       (Inl (ValueError ''Can not copy directory /d to file /a.''), w0)"
  using copy_directory_preconditions [where w = w0 and source = "[''x'']" and destination = "[''y'']"
      and E = E0 and buffer_size = 2 and overwrite = None and dry = False]
    copy_directory_preconditions [where w = w0 and source = "[''d'']" and destination = "[''a'']"
      and E = E0 and buffer_size = 2 and overwrite = None and dry = False]
  by (simp add: fs0_tests path_str_simps)

subsection \<open>Claims about the command\<close>

text \<open>
  Copying touches the file system and the two counters only: the clock, the instants of
  the window and the output streams are as before, whether the copy returns or raises.
\<close>

lemma transfer_frame:
  assumes "transfer E source destination buffer_size dry src_size w = (r, w')"
  shows "ticks w' = ticks w \<and> start_time (stats w') = start_time (stats w)
         \<and> end_time (stats w') = end_time (stats w)
         \<and> stdout w' = stdout w \<and> stderr w' = stderr w"
  using assms
  by (auto simp: transfer_def count_file_def Let_def split: if_splits sum.splits)

lemma copy_file_frame:
  assumes "copy_file E source destination buffer_size overwrite dry w = (r, w')"
  shows "ticks w' = ticks w \<and> start_time (stats w') = start_time (stats w)
         \<and> end_time (stats w') = end_time (stats w)
         \<and> stdout w' = stdout w \<and> stderr w' = stderr w"
proof -
  have "w' = w \<or> transfer E source destination buffer_size dry (st_size (fs w) source) w = (r, w')"
    using assms by (auto simp: copy_file_def Let_def split: if_splits sum.splits)
  then show ?thesis using transfer_frame by blast
qed

lemma copy_items_frame:
  "copy_items E source destination buffer_size overwrite dry items w = (r, w') \<Longrightarrow>
   ticks w' = ticks w \<and> start_time (stats w') = start_time (stats w)
     \<and> end_time (stats w') = end_time (stats w)
     \<and> stdout w' = stdout w \<and> stderr w' = stderr w"
proof (induction items arbitrary: w)
  case Nil
  then show ?case by simp
next
  case (Cons item items)
  show ?case
  proof (cases "relative_to item source")
    case (Inl e)
    with Cons.prems show ?thesis by simp
  next
    case (Inr rel)
    show ?thesis
    proof (cases "is_file (fs w) item")
      case True
      obtain r1 w1 where c: "copy_file E item (joinpath destination rel) buffer_size overwrite dry w = (r1, w1)"
        by (cases "copy_file E item (joinpath destination rel) buffer_size overwrite dry w")
      note f = copy_file_frame[OF c]
      show ?thesis
      proof (cases r1)
        case (Inl e)
        with Cons.prems Inr True c have "w' = w1" by simp
        with f show ?thesis by simp
      next
        case (Inr u)
        with Cons.prems \<open>relative_to item source = Inr rel\<close> True c
        have "copy_items E source destination buffer_size overwrite dry items w1 = (r, w')" by simp
        from Cons.IH[OF this] f show ?thesis by simp
      qed
    next
      case False
      show ?thesis
      proof (cases dry)
        case True
        with Cons.prems Inr False
        have "copy_items E source destination buffer_size overwrite dry items w = (r, w')" by simp
        from Cons.IH[OF this] show ?thesis .
      next
        case nd: False
        show ?thesis
        proof (cases "mkdir_parents (fs w) (joinpath destination rel)")
          case (Inl e)
          with Cons.prems Inr False nd show ?thesis by simp
        next
          case mk: (Inr fs')
          with Cons.prems Inr False nd
          have "copy_items E source destination buffer_size overwrite dry items (w\<lparr>fs := fs'\<rparr>) = (r, w')"
            by simp
          from Cons.IH[OF this] show ?thesis by simp
        qed
      qed
    qed
  qed
qed

lemma copy_directory_frame:
  assumes "copy_directory E source destination buffer_size overwrite dry w = (r, w')"
  shows "ticks w' = ticks w \<and> start_time (stats w') = start_time (stats w)
         \<and> end_time (stats w') = end_time (stats w)
         \<and> stdout w' = stdout w \<and> stderr w' = stderr w"
proof -
  have "w' = w \<or> copy_items E source destination buffer_size overwrite dry (rglob (fs w) source) w = (r, w')"
    using assms by (auto simp: copy_directory_def split: if_splits)
  then show ?thesis using copy_items_frame by blast
qed

lemma dispatch_frame:
  assumes "dispatch E source destination buffer overwrite dry_run w = (r, w')"
  shows "ticks w' = ticks w \<and> start_time (stats w') = start_time (stats w)
         \<and> end_time (stats w') = end_time (stats w)
         \<and> stdout w' = stdout w \<and> stderr w' = stderr w"
  using assms copy_file_frame copy_directory_frame
  by (auto simp: dispatch_def Let_def split: if_splits)

text \<open>
  C6. Whatever \<open>copy\<close> is given and however it ends (returning, or exiting with -1 after
  an error of the file or directory copy), the window is opened once and closed once: the
  clock is read exactly twice, \<open>start_time\<close> is the first reading and \<open>end_time\<close> is the
  second, taken after the copy has returned or raised.
\<close>

theorem copy_closes_window_once:
  assumes "copy E source destination buffer overwrite dry_run quiet w = (status, w')"
  shows "start_time (stats w') = Some (perf_counter E (ticks w))
         \<and> end_time (stats w') = Some (perf_counter E (Suc (ticks w)))
         \<and> ticks w' = ticks w + 2"
proof -
  define w1 where "w1 = (if \<not> quiet
                then echo (''Copying from '' @ path_str (absolute source) @ '' to ''
                           @ path_str (absolute destination)) w
                else w)"
  define w2 where "w2 = Stats_enter E (w1\<lparr>stats := Stats_init\<rparr>)"
  obtain r w3 where d: "dispatch E source destination buffer overwrite dry_run w2 = (r, w3)"
    by (cases "dispatch E source destination buffer overwrite dry_run w2")
  define w4 where "w4 = Stats_exit E w3"
  have t1: "ticks w1 = ticks w" by (simp add: w1_def echo_def)
  have s2: "ticks w2 = Suc (ticks w)" "start_time (stats w2) = Some (perf_counter E (ticks w))"
    by (simp_all add: w2_def Stats_enter_def get_time_def t1)
  from dispatch_frame[OF d] s2
  have s3: "ticks w3 = Suc (ticks w)" "start_time (stats w3) = Some (perf_counter E (ticks w))"
    by simp_all
  have s4: "ticks w4 = ticks w + 2" "start_time (stats w4) = Some (perf_counter E (ticks w))"
    "end_time (stats w4) = Some (perf_counter E (Suc (ticks w)))"
    by (simp_all add: w4_def Stats_exit_def get_time_def s3)
  have "copy E source destination buffer overwrite dry_run quiet w =
          (case r of Inl e \<Rightarrow> exit_failure e w4
           | Inr _ \<Rightarrow> if \<not> quiet then
                    (case report E (stats w4) of
                       Inl e \<Rightarrow> exit_failure e w4
                     | Inr msg \<Rightarrow> (None, echo msg w4))
                  else (None, w4))"
    unfolding copy_def Let_def w4_def using d[unfolded w2_def w1_def] by simp
  with assms have "stats w' = stats w4 \<and> ticks w' = ticks w4"
    by (auto simp: exit_failure_def echo_def split: sum.splits if_splits)
  with s4 show ?thesis by simp
qed

theorem copy_closes_window_once_witness:
  "fst (copy E0 [''x''] [''y''] 2 (Some False) False True w0) = Some (- 1)
   \<and> start_time (stats (snd (copy E0 [''x''] [''y''] 2 (Some False) False True w0))) = Some 0
   \<and> end_time (stats (snd (copy E0 [''x''] [''y''] 2 (Some False) False True w0))) = Some 1
   \<and> ticks (snd (copy E0 [''x''] [''y''] 2 (Some False) False True w0)) = 2"
proof -
  have "fst (copy E0 [''x''] [''y''] 2 (Some False) False True w0) = Some (- 1)"
    by (simp add: copy_def dispatch_def copy_directory_def Stats_enter_def Stats_exit_def
        get_time_def exit_failure_def is_file_def exists_def w0_def fs0_def Let_def)
  then show ?thesis
    using copy_closes_window_once [where E = E0 and source = "[''x'']" and destination = "[''y'']"
        and buffer = 2 and overwrite = "Some False" and dry_run = False and quiet = True
        and w = w0, OF prod.collapse [symmetric]]
    by (simp add: E0_def w0_def)
qed

text \<open>
  C7. When the source is a regular file and the destination exists and is a directory,
  the dispatcher hands \<open>copy_file\<close> the destination joined with the source's base name.
\<close>

theorem dispatch_file_into_directory:
  assumes "is_file (fs w) source" and "exists (fs w) destination" and "is_dir (fs w) destination"
  shows "dispatch E source destination buffer overwrite dry_run w =
           copy_file E source (join_name destination (name source)) buffer overwrite dry_run w"
  using assms by (simp add: dispatch_def)

theorem dispatch_file_into_directory_witness:
  "is_file (fs w0) [''a''] \<and> exists (fs w0) [''d''] \<and> is_dir (fs w0) [''d'']
   \<and> dispatch E0 [''a''] [''d''] 2 (Some True) False w0 =
       copy_file E0 [''a''] [''d'', ''a''] 2 (Some True) False w0"
  using dispatch_file_into_directory [where w = w0 and source = "[''a'']" and destination = "[''d'']"
      and E = E0 and buffer = 2 and overwrite = "Some True" and dry_run = False]
  by (simp add: fs0_tests join_name_def name_def)

end
